theory Spec2Isabelle
  imports Main
begin

section \<open>The template copier \<^verbatim>\<open>scripts/_rewrite_contacts_import_modal.py\<close>\<close>

text \<open>
  The script reads a template file, strips the white space at its end, appends one newline,
  writes the result to a fixed destination and prints how many lines it wrote:
  \<^verbatim>\<open>
  TEMPLATE_PATH = Path(__file__).with_name("contacts-import-modal.tsx.template")
  TARGET_PATH = Path("app/(dashboard)/contacts/contacts-import-modal.tsx")

  def main() -> None:
    if not TEMPLATE_PATH.exists():
      raise FileNotFoundError(f"Template not found: {TEMPLATE_PATH}")

    content = TEMPLATE_PATH.read_text(encoding="utf-8").rstrip() + "\n"
    TARGET_PATH.write_text(content, encoding="utf-8")
    line_count = len(content.splitlines())
    print(f"Wrote {TARGET_PATH} ({line_count} lines)")

  if __name__ == "__main__":
    main()
  \<close>
  The embedding has three layers: Python's \<open>str\<close> with the two string methods the script
  calls, a file system with the three \<open>pathlib\<close> operations it calls, and the script itself.
\<close>

subsection \<open>Python strings\<close>

text \<open>
  A Python \<open>str\<close> is a sequence of Unicode code points. Both \<open>rstrip\<close> and
  \<open>splitlines\<close> look at code points beyond ASCII, so a code point is a natural number
  and not an 8-bit \<open>char\<close>.
\<close>

type_synonym codepoint = nat
type_synonym pystr = "codepoint list"

abbreviation LF :: codepoint where "LF \<equiv> 0x0A"
abbreviation CR :: codepoint where "CR \<equiv> 0x0D"

text \<open>The code points of an ASCII literal of the source.\<close>

definition ascii :: "string \<Rightarrow> pystr" where
  "ascii s = map of_char s"

text \<open>
  \<open>str.rstrip()\<close> without argument removes the characters for which \<open>str.isspace\<close>
  holds: the ASCII controls TAB, LF, VT, FF, CR, FS, GS, RS, US, the space, NEL, the
  no-break space and the Unicode space separators.
\<close>

definition is_space :: "codepoint \<Rightarrow> bool" where
  "is_space c \<longleftrightarrow>
     (0x09 \<le> c \<and> c \<le> 0x0D) \<or> (0x1C \<le> c \<and> c \<le> 0x20) \<or> c = 0x85 \<or> c = 0xA0 \<or>
     c = 0x1680 \<or> (0x2000 \<le> c \<and> c \<le> 0x200A) \<or> c = 0x2028 \<or> c = 0x2029 \<or>
     c = 0x202F \<or> c = 0x205F \<or> c = 0x3000"

text \<open>
  \<open>str.splitlines()\<close> ends a line at LF, VT, FF, CR, FS, GS, RS, NEL, LINE SEPARATOR and
  PARAGRAPH SEPARATOR; CR followed by LF is one line end.
\<close>

definition is_linebreak :: "codepoint \<Rightarrow> bool" where
  "is_linebreak c \<longleftrightarrow>
     (0x0A \<le> c \<and> c \<le> 0x0D) \<or> (0x1C \<le> c \<and> c \<le> 0x1E) \<or> c = 0x85 \<or>
     c = 0x2028 \<or> c = 0x2029"

text \<open>\<open>s.rstrip()\<close>: scan from the end while the character is white space, keep the rest.\<close>

definition rstrip :: "pystr \<Rightarrow> pystr" where
  "rstrip s = rev (dropWhile is_space (rev s))"

text \<open>
  \<open>s.splitlines()\<close>: the lines without their line ends. \<open>cur\<close> is the line read so far.
  A line end closes the current line, even an empty one; the end of the string closes it
  only when it is not empty, so a string that ends in a line end has no empty last line.
\<close>

fun splitlines_from :: "pystr \<Rightarrow> pystr \<Rightarrow> pystr list" where
  "splitlines_from cur [] = (if cur = [] then [] else [cur])"
| "splitlines_from cur [c] = (if is_linebreak c then [cur] else [cur @ [c]])"
| "splitlines_from cur (c # d # ds) =
     (if c = CR \<and> d = LF then cur # splitlines_from [] ds
      else if is_linebreak c then cur # splitlines_from [] (d # ds)
      else splitlines_from (cur @ [c]) (d # ds))"

definition splitlines :: "pystr \<Rightarrow> pystr list" where
  "splitlines s = splitlines_from [] s"

text \<open>
  The specification counts ``newline-delimited segments'': the lines that the newline
  character alone ends. This definition follows the specification's words, to be compared
  with \<open>splitlines\<close>; a text that ends in a newline has no empty last segment, as the
  specification's scenario counts one line in \<^verbatim>\<open>"export const X = 1;\n"\<close>.
\<close>

fun newline_segments_from :: "pystr \<Rightarrow> pystr \<Rightarrow> pystr list" where
  "newline_segments_from cur [] = (if cur = [] then [] else [cur])"
| "newline_segments_from cur (c # cs) =
     (if c = LF then cur # newline_segments_from [] cs
      else newline_segments_from (cur @ [c]) cs)"

definition newline_segments :: "pystr \<Rightarrow> pystr list" where
  "newline_segments s = newline_segments_from [] s"

text \<open>
  A file opened in text mode with the default \<open>newline=None\<close>, as \<open>read_text\<close> opens
  it, is read with universal newlines: CR LF and a lone CR both arrive as LF.
\<close>

fun universal_newlines :: "pystr \<Rightarrow> pystr" where
  "universal_newlines [] = []"
| "universal_newlines [c] = (if c = CR then [LF] else [c])"
| "universal_newlines (c # d # ds) =
     (if c = CR \<and> d = LF then LF # universal_newlines ds
      else if c = CR then LF # universal_newlines (d # ds)
      else c # universal_newlines (d # ds))"

text \<open>The decimal digits of a number, as an f-string formats an \<open>int\<close>.\<close>

fun decimal :: "nat \<Rightarrow> string" where
  "decimal n =
     (if n < 10 then [''0123456789'' ! n]
      else decimal (n div 10) @ [''0123456789'' ! (n mod 10)])"

declare decimal.simps [simp del]

subsection \<open>The file system and the process\<close>

text \<open>
  A path names at most one node. A regular file is kept as the text its bytes decode to
  in UTF-8 (UTF-8 is injective, so two such files hold the same bytes exactly when they
  hold the same text); a regular file whose bytes are not valid UTF-8 is a \<open>BinaryFile\<close>.
  Paths are compared as written: links and two spellings of one path are not modelled.
  Text is written with the line separator of POSIX, so LF is stored as LF.
\<close>

type_synonym path = string

datatype node = Directory | TextFile pystr | BinaryFile

datatype error =
    FileNotFoundError string
  | IsADirectoryError path
  | PermissionError path
  | UnicodeDecodeError path
  | OSError path

text \<open>
  Whether opening a path for writing succeeds is decided outside the program (the parent
  directory, the permissions, the space left). \<open>OpenFails\<close>: \<open>open\<close> raises and the
  file is as before. \<open>WriteFails\<close>: \<open>open\<close> has truncated the file when the write raises.
\<close>

datatype wstatus = WriteOk | OpenFails | WriteFails

text \<open>Every call into the file system or to \<open>print\<close> is recorded with its result.\<close>

datatype event =
    Exists path bool
  | ReadText path "error + pystr"
  | WriteText path pystr "error + unit"
  | Print string

record world =
  nodes :: "path \<Rightarrow> node option"
  may_read :: "path \<Rightarrow> bool"
  may_write :: "path \<Rightarrow> wstatus"
  stdout :: "string list"
  stderr :: "error list"
  trace :: "event list"

definition record_event :: "event \<Rightarrow> world \<Rightarrow> world" where
  "record_event e w = w\<lparr>trace := trace w @ [e]\<rparr>"

text \<open>\<open>Path.exists()\<close>\<close>

definition exists :: "path \<Rightarrow> world \<Rightarrow> bool \<times> world" where
  "exists p w =
     (let r = (case nodes w p of None \<Rightarrow> False | Some n \<Rightarrow> True)
      in (r, record_event (Exists p r) w))"

text \<open>\<open>Path.read_text(encoding="utf-8")\<close>: open for reading, decode, translate the newlines.\<close>

definition read_result :: "path \<Rightarrow> world \<Rightarrow> error + pystr" where
  "read_result p w =
     (case nodes w p of
        None \<Rightarrow> Inl (FileNotFoundError p)
      | Some n \<Rightarrow>
          if may_read w p then
            (case n of
               Directory \<Rightarrow> Inl (IsADirectoryError p)
             | BinaryFile \<Rightarrow> Inl (UnicodeDecodeError p)
             | TextFile s \<Rightarrow> Inr (universal_newlines s))
          else Inl (PermissionError p))"

definition read_text :: "path \<Rightarrow> world \<Rightarrow> (error + pystr) \<times> world" where
  "read_text p w = (let r = read_result p w in (r, record_event (ReadText p r) w))"

text \<open>
  \<open>Path.write_text(data, encoding="utf-8")\<close>: open for writing, which creates the file or
  truncates it, then write the whole text.
\<close>

definition write_text :: "path \<Rightarrow> pystr \<Rightarrow> world \<Rightarrow> (error + unit) \<times> world" where
  "write_text p s w =
     (if nodes w p = Some Directory then
        (Inl (IsADirectoryError p), record_event (WriteText p s (Inl (IsADirectoryError p))) w)
      else case may_write w p of
        OpenFails \<Rightarrow> (Inl (OSError p), record_event (WriteText p s (Inl (OSError p))) w)
      | WriteFails \<Rightarrow>
          (Inl (OSError p),
           record_event (WriteText p s (Inl (OSError p))) (w\<lparr>nodes := (nodes w)(p \<mapsto> TextFile [])\<rparr>))
      | WriteOk \<Rightarrow>
          (Inr (), record_event (WriteText p s (Inr ())) (w\<lparr>nodes := (nodes w)(p \<mapsto> TextFile s)\<rparr>)))"

text \<open>\<open>print(s)\<close>: one more line on the standard output.\<close>

definition print :: "string \<Rightarrow> world \<Rightarrow> (error + unit) \<times> world" where
  "print s w = (Inr (), record_event (Print s) (w\<lparr>stdout := stdout w @ [s]\<rparr>))"

subsection \<open>The script\<close>

text \<open>
  \<open>Path(p).with_name(name)\<close> replaces the last component of \<open>p\<close>; \<open>pathlib\<close> also
  tidies the spelling of a path (a leading \<^verbatim>\<open>./\<close>, doubled slashes), which is not modelled.
  The parameter \<open>file\<close> of \<open>TEMPLATE_PATH\<close> and of \<open>main\<close> is Python's \<open>__file__\<close>, the
  path of the script itself.
\<close>

definition with_name :: "path \<Rightarrow> string \<Rightarrow> path" where
  "with_name p name = rev (dropWhile (\<lambda>c. c \<noteq> CHR ''/'') (rev p)) @ name"

definition TEMPLATE_PATH :: "path \<Rightarrow> path" where
  "TEMPLATE_PATH file = with_name file ''contacts-import-modal.tsx.template''"

definition TARGET_PATH :: path where
  "TARGET_PATH = ''app/(dashboard)/contacts/contacts-import-modal.tsx''"

text \<open>Line 11 of the source: the normalized content.\<close>

definition normalized :: "pystr \<Rightarrow> pystr" where
  "normalized text = rstrip text @ [LF]"

text \<open>Line 14 of the source: the confirmation message.\<close>

definition confirmation :: "pystr \<Rightarrow> string" where
  "confirmation content =
     ''Wrote '' @ TARGET_PATH @ '' ('' @ decimal (length (splitlines content)) @ '' lines)''"

definition main :: "path \<Rightarrow> world \<Rightarrow> (error + unit) \<times> world" where
  "main file w0 =
     (case exists (TEMPLATE_PATH file) w0 of
        (False, w1) \<Rightarrow>
          (Inl (FileNotFoundError (''Template not found: '' @ TEMPLATE_PATH file)), w1)
      | (True, w1) \<Rightarrow>
          (case read_text (TEMPLATE_PATH file) w1 of
             (Inl e, w2) \<Rightarrow> (Inl e, w2)
           | (Inr text, w2) \<Rightarrow>
               (let content = normalized text in
                case write_text TARGET_PATH content w2 of
                  (Inl e, w3) \<Rightarrow> (Inl e, w3)
                | (Inr _, w3) \<Rightarrow> print (confirmation content) w3)))"

text \<open>
  \<open>if __name__ == "__main__": main()\<close>: the interpreter ends with status 0 when \<open>main\<close>
  returns, and reports an exception that nothing caught and ends with status 1.
\<close>

definition script :: "path \<Rightarrow> world \<Rightarrow> nat \<times> world" where
  "script file w =
     (case main file w of
        (Inr _, w') \<Rightarrow> (0, w')
      | (Inl e, w') \<Rightarrow> (1, w'\<lparr>stderr := stderr w' @ [e]\<rparr>))"

subsection \<open>What a run did\<close>

text \<open>The calls that were made between the world \<open>w\<close> and the later world \<open>w'\<close>.\<close>

definition performed :: "world \<Rightarrow> world \<Rightarrow> event list" where
  "performed w w' = drop (length (trace w)) (trace w')"

text \<open>The paths a call looks at, and the paths it opens for writing.\<close>

fun reads_of :: "event \<Rightarrow> path list" where
  "reads_of (Exists p r) = [p]"
| "reads_of (ReadText p r) = [p]"
| "reads_of (WriteText p s r) = []"
| "reads_of (Print s) = []"

fun writes_of :: "event \<Rightarrow> path list" where
  "writes_of (Exists p r) = []"
| "writes_of (ReadText p r) = []"
| "writes_of (WriteText p s r) = [p]"
| "writes_of (Print s) = []"

subsection \<open>Worlds to run the script in\<close>

text \<open>
  A fresh process in a file system with the nodes \<open>ns\<close>, where every file may be read and
  writing behaves as \<open>ws\<close> says.
\<close>

definition fresh :: "(path \<Rightarrow> node option) \<Rightarrow> wstatus \<Rightarrow> world" where
  "fresh ns ws =
     \<lparr>nodes = ns, may_read = (\<lambda>p. True), may_write = (\<lambda>p. ws),
      stdout = [], stderr = [], trace = []\<rparr>"

text \<open>The script lies in \<^verbatim>\<open>scripts/\<close>, and so does its template.\<close>

definition script_file :: path where
  "script_file = ''scripts/_rewrite_contacts_import_modal.py''"

definition template_file :: path where
  "template_file = ''scripts/contacts-import-modal.tsx.template''"

text \<open>A fresh process where the template holds the text \<open>s\<close> and there is no destination yet.\<close>

definition with_template :: "pystr \<Rightarrow> wstatus \<Rightarrow> world" where
  "with_template s ws = fresh (Map.empty(template_file \<mapsto> TextFile s)) ws"

text \<open>The same with a destination that is there before the run, as the node \<open>old\<close>.\<close>

definition with_both :: "pystr \<Rightarrow> node \<Rightarrow> wstatus \<Rightarrow> world" where
  "with_both s old ws = fresh (Map.empty(template_file \<mapsto> TextFile s, TARGET_PATH \<mapsto> old)) ws"

text \<open>
  Two templates: one where form feeds (U+000C) separate three words, and one of two
  lines that end in newlines.
\<close>

definition ff_template :: pystr where
  "ff_template = ascii ''a'' @ [0x0C] @ ascii ''b'' @ [0x0C] @ ascii ''c'' @ [LF]"

definition two_lines :: pystr where
  "two_lines = ascii ''a'' @ [LF] @ ascii ''b'' @ [LF]"

text \<open>The template of the specification's scenario.\<close>

definition scenario_template :: pystr where
  "scenario_template = ascii ''export const X = 1;'' @ [LF] @ ascii ''   '' @ [LF]"

text \<open>A template of white space only: space, newline, tab, ideographic space, space.\<close>

definition blank_template :: pystr where
  "blank_template = [0x20, LF, 0x09, 0x3000, 0x20]"

text \<open>A fresh process with the template and one more file, and no destination yet.\<close>

definition with_readme :: "wstatus \<Rightarrow> world" where
  "with_readme ws =
     fresh (Map.empty(template_file \<mapsto> TextFile (ascii ''abc'' @ [LF, LF, LF]),
                      ''README.md'' \<mapsto> TextFile (ascii ''hello''))) ws"

section \<open>Properties of the string operations\<close>

lemma rstrip_split: "rstrip s @ rev (takeWhile is_space (rev s)) = s"
proof -
  have "rev (takeWhile is_space (rev s) @ dropWhile is_space (rev s)) = s"
    by simp
  then show ?thesis
    by (simp only: rev_append rstrip_def)
qed

lemma rstrip_snoc_space: "is_space c \<Longrightarrow> rstrip (s @ [c]) = rstrip s"
  by (simp add: rstrip_def)

lemma rstrip_last: "rstrip s \<noteq> [] \<Longrightarrow> \<not> is_space (last (rstrip s))"
  unfolding rstrip_def using hd_dropWhile [of is_space "rev s"]
  by (simp add: last_rev)

lemma rstrip_fixed: "s = [] \<or> \<not> is_space (last s) \<Longrightarrow> rstrip s = s"
  by (cases s rule: rev_cases) (auto simp: rstrip_def)

lemma rstrip_append_spaces: "\<forall>c\<in>set ws. is_space c \<Longrightarrow> rstrip (s @ ws) = rstrip s"
proof (induction ws rule: rev_induct)
  case Nil
  then show ?case by simp
next
  case (snoc c ws)
  then have "is_space c" and "rstrip (s @ ws) = rstrip s"
    by simp_all
  then show ?case
    using rstrip_snoc_space [of c "s @ ws"] by simp
qed

lemma rstrip_idem: "rstrip (rstrip s) = rstrip s"
proof (rule rstrip_fixed)
  show "rstrip s = [] \<or> \<not> is_space (last (rstrip s))"
    using rstrip_last [of s] by blast
qed

lemma LF_is_space: "is_space LF"
  by (simp add: is_space_def)

lemma rstrip_all_space: "\<forall>c\<in>set s. is_space c \<Longrightarrow> rstrip s = []"
  using rstrip_append_spaces [of s "[]"] by (simp add: rstrip_def)

lemma LF_is_linebreak: "is_linebreak LF"
  by (simp add: is_linebreak_def)

lemma CR_is_linebreak: "is_linebreak CR"
  by (simp add: is_linebreak_def)

lemma splitlines_from_nonempty: "s \<noteq> [] \<Longrightarrow> splitlines_from cur s \<noteq> []"
  by (induction cur s rule: splitlines_from.induct) simp_all

text \<open>Where the newline is the only line end, \<open>splitlines\<close> splits at the newlines.\<close>

lemma splitlines_only_LF:
  "\<forall>c\<in>set s. is_linebreak c \<longrightarrow> c = LF \<Longrightarrow>
   splitlines_from cur s = newline_segments_from cur s"
proof (induction cur s rule: splitlines_from.induct)
  case (1 cur)
  show ?case by simp
next
  case (2 cur c)
  then have "is_linebreak c \<longleftrightarrow> c = LF"
    using LF_is_linebreak by auto
  then show ?case by simp
next
  case (3 cur c d ds)
  from 3(4) have c: "is_linebreak c \<longleftrightarrow> c = LF"
    using LF_is_linebreak by auto
  with CR_is_linebreak have ncr: "c \<noteq> CR" by auto
  from 3(4) have rest: "\<forall>c\<in>set (d # ds). is_linebreak c \<longrightarrow> c = LF" by simp
  show ?case
  proof (cases "c = LF")
    case True
    with c ncr have "splitlines_from cur (c # d # ds) = cur # splitlines_from [] (d # ds)"
      by simp
    also have "splitlines_from [] (d # ds) = newline_segments_from [] (d # ds)"
      using 3(2) ncr c True rest by blast
    finally show ?thesis using True by simp
  next
    case False
    with c ncr have "splitlines_from cur (c # d # ds) = splitlines_from (cur @ [c]) (d # ds)"
      by simp
    also have "\<dots> = newline_segments_from (cur @ [c]) (d # ds)"
      using 3(3) ncr c False rest by blast
    finally show ?thesis using False by simp
  qed
qed

text \<open>The newline-delimited segments of a text that ends in a newline are as many as its newlines.\<close>

lemma length_newline_segments_from:
  "length (newline_segments_from cur s) =
     count_list s LF +
     (if s = [] then (if cur = [] then 0 else 1) else if last s = LF then 0 else 1)"
proof (induction s arbitrary: cur)
  case Nil
  show ?case by simp
next
  case (Cons c cs)
  show ?case
    by (cases "cs = []") (simp_all add: Cons.IH)
qed

section \<open>The runs of \<open>main\<close>\<close>

text \<open>
  A run ends in one of six ways: the template is missing, the template cannot be read as
  text, the destination is a directory, the destination cannot be opened, the write fails
  after the destination was opened, or the text is written and the message printed.
\<close>

lemma read_result_trace [simp]: "read_result p (w\<lparr>trace := t\<rparr>) = read_result p w"
  by (simp add: read_result_def split: option.split)

lemma read_result_present: "read_result p w = Inr text \<Longrightarrow> nodes w p \<noteq> None"
  by (auto simp: read_result_def split: option.splits)

lemma template_not_target: "TEMPLATE_PATH file \<noteq> TARGET_PATH"
proof
  assume "TEMPLATE_PATH file = TARGET_PATH"
  then have "last (TEMPLATE_PATH file) = last TARGET_PATH" by simp
  then show False
    by (simp add: TEMPLATE_PATH_def with_name_def TARGET_PATH_def)
qed

lemma main_missing:
  assumes "nodes w (TEMPLATE_PATH file) = None"
  shows "main file w =
    (Inl (FileNotFoundError (''Template not found: '' @ TEMPLATE_PATH file)),
     w\<lparr>trace := trace w @ [Exists (TEMPLATE_PATH file) False]\<rparr>)"
  using assms by (simp add: Let_def main_def exists_def record_event_def)

lemma main_unreadable:
  assumes "nodes w (TEMPLATE_PATH file) \<noteq> None" and "read_result (TEMPLATE_PATH file) w = Inl e"
  shows "main file w =
    (Inl e, w\<lparr>trace := trace w @ [Exists (TEMPLATE_PATH file) True,
                                   ReadText (TEMPLATE_PATH file) (Inl e)]\<rparr>)"
  using assms by (auto simp: Let_def main_def exists_def read_text_def record_event_def)

lemma main_target_directory:
  assumes "read_result (TEMPLATE_PATH file) w = Inr text"
    and "nodes w TARGET_PATH = Some Directory"
  shows "main file w =
    (Inl (IsADirectoryError TARGET_PATH),
     w\<lparr>trace := trace w @ [Exists (TEMPLATE_PATH file) True,
          ReadText (TEMPLATE_PATH file) (Inr text),
          WriteText TARGET_PATH (normalized text) (Inl (IsADirectoryError TARGET_PATH))]\<rparr>)"
proof -
  from assms(1) have "nodes w (TEMPLATE_PATH file) \<noteq> None"
    by (rule read_result_present)
  with assms show ?thesis
    by (auto simp: Let_def main_def exists_def read_text_def write_text_def record_event_def)
qed

lemma main_open_fails:
  assumes "read_result (TEMPLATE_PATH file) w = Inr text"
    and "nodes w TARGET_PATH \<noteq> Some Directory" and "may_write w TARGET_PATH = OpenFails"
  shows "main file w =
    (Inl (OSError TARGET_PATH),
     w\<lparr>trace := trace w @ [Exists (TEMPLATE_PATH file) True,
          ReadText (TEMPLATE_PATH file) (Inr text),
          WriteText TARGET_PATH (normalized text) (Inl (OSError TARGET_PATH))]\<rparr>)"
proof -
  from assms(1) have "nodes w (TEMPLATE_PATH file) \<noteq> None"
    by (rule read_result_present)
  with assms show ?thesis
    by (auto simp: Let_def main_def exists_def read_text_def write_text_def record_event_def)
qed

lemma main_write_fails:
  assumes "read_result (TEMPLATE_PATH file) w = Inr text"
    and "nodes w TARGET_PATH \<noteq> Some Directory" and "may_write w TARGET_PATH = WriteFails"
  shows "main file w =
    (Inl (OSError TARGET_PATH),
     w\<lparr>nodes := (nodes w)(TARGET_PATH \<mapsto> TextFile []),
       trace := trace w @ [Exists (TEMPLATE_PATH file) True,
          ReadText (TEMPLATE_PATH file) (Inr text),
          WriteText TARGET_PATH (normalized text) (Inl (OSError TARGET_PATH))]\<rparr>)"
proof -
  from assms(1) have "nodes w (TEMPLATE_PATH file) \<noteq> None"
    by (rule read_result_present)
  with assms show ?thesis
    by (auto simp: Let_def main_def exists_def read_text_def write_text_def record_event_def)
qed

lemma main_ok:
  assumes "read_result (TEMPLATE_PATH file) w = Inr text"
    and "nodes w TARGET_PATH \<noteq> Some Directory" and "may_write w TARGET_PATH = WriteOk"
  shows "main file w =
    (Inr (),
     w\<lparr>nodes := (nodes w)(TARGET_PATH \<mapsto> TextFile (normalized text)),
       stdout := stdout w @ [confirmation (normalized text)],
       trace := trace w @ [Exists (TEMPLATE_PATH file) True,
          ReadText (TEMPLATE_PATH file) (Inr text),
          WriteText TARGET_PATH (normalized text) (Inr ()),
          Print (confirmation (normalized text))]\<rparr>)"
proof -
  from assms(1) have "nodes w (TEMPLATE_PATH file) \<noteq> None"
    by (rule read_result_present)
  with assms show ?thesis
    by (auto simp: Let_def main_def exists_def read_text_def write_text_def print_def record_event_def)
qed

lemma main_outcomes [case_names missing unreadable target_directory open_fails write_fails ok]:
  obtains
    (missing) "nodes w (TEMPLATE_PATH file) = None"
  | (unreadable) e where "nodes w (TEMPLATE_PATH file) \<noteq> None"
      and "read_result (TEMPLATE_PATH file) w = Inl e"
  | (target_directory) t where "read_result (TEMPLATE_PATH file) w = Inr t"
      and "nodes w TARGET_PATH = Some Directory"
  | (open_fails) t where "read_result (TEMPLATE_PATH file) w = Inr t"
      and "nodes w TARGET_PATH \<noteq> Some Directory" and "may_write w TARGET_PATH = OpenFails"
  | (write_fails) t where "read_result (TEMPLATE_PATH file) w = Inr t"
      and "nodes w TARGET_PATH \<noteq> Some Directory" and "may_write w TARGET_PATH = WriteFails"
  | (ok) t where "read_result (TEMPLATE_PATH file) w = Inr t"
      and "nodes w TARGET_PATH \<noteq> Some Directory" and "may_write w TARGET_PATH = WriteOk"
proof (cases "nodes w (TEMPLATE_PATH file) = None")
  case True
  then show ?thesis by (rule missing)
next
  case present: False
  show ?thesis
  proof (cases "read_result (TEMPLATE_PATH file) w")
    case (Inl e)
    with present show ?thesis by (rule unreadable)
  next
    case (Inr t)
    show ?thesis
    proof (cases "nodes w TARGET_PATH = Some Directory")
      case True
      with Inr show ?thesis by (rule target_directory)
    next
      case False
      with Inr show ?thesis
        by (cases "may_write w TARGET_PATH") (blast intro: open_fails write_fails ok)+
    qed
  qed
qed

lemma performed_append [simp]: "performed w (w'\<lparr>trace := trace w @ evs\<rparr>) = evs"
  by (simp add: performed_def)

lemma TEMPLATE_PATH_script_file: "TEMPLATE_PATH script_file = template_file"
  by (simp add: TEMPLATE_PATH_def with_name_def script_file_def template_file_def)

lemma template_file_not_target: "template_file \<noteq> TARGET_PATH"
  using template_not_target [of script_file] by (simp add: TEMPLATE_PATH_script_file)

text \<open>The run in a fresh world with a template and a writable destination.\<close>

lemma read_with_template:
  "read_result (TEMPLATE_PATH script_file) (with_template s ws) = Inr (universal_newlines s)"
  by (simp add: read_result_def with_template_def fresh_def TEMPLATE_PATH_script_file)

lemma target_with_template: "nodes (with_template s ws) TARGET_PATH = None"
  using template_file_not_target by (simp add: with_template_def fresh_def)

lemma main_with_template:
  "main script_file (with_template s WriteOk) =
     (Inr (),
      (with_template s WriteOk)
        \<lparr>nodes := (nodes (with_template s WriteOk))
                    (TARGET_PATH \<mapsto> TextFile (normalized (universal_newlines s))),
         stdout := [confirmation (normalized (universal_newlines s))],
         trace := [Exists template_file True,
                   ReadText template_file (Inr (universal_newlines s)),
                   WriteText TARGET_PATH (normalized (universal_newlines s)) (Inr ()),
                   Print (confirmation (normalized (universal_newlines s)))]\<rparr>)"
proof -
  have "may_write (with_template s WriteOk) TARGET_PATH = WriteOk"
    and "stdout (with_template s WriteOk) = []" and "trace (with_template s WriteOk) = []"
    by (simp_all add: with_template_def fresh_def)
  then show ?thesis
    using main_ok [OF read_with_template, of s WriteOk]
    by (simp add: target_with_template TEMPLATE_PATH_script_file)
qed

text \<open>
  Reading translates the line ends, so the text that \<open>main\<close> normalizes is the template
  with LF for every CR LF and every lone CR: a template with the line ends of DOS leaves
  a destination with the line ends of POSIX.
\<close>

lemma crlf_template_is_translated:
  "nodes (snd (main script_file
      (with_template (ascii ''a'' @ [CR, LF] @ ascii ''b'' @ [CR, LF]) WriteOk))) TARGET_PATH =
   Some (TextFile (ascii ''a'' @ [LF] @ ascii ''b'' @ [LF]))"
  by (simp add: main_with_template)
    (simp add: normalized_def rstrip_def ascii_def is_space_def)

text \<open>A run succeeds exactly when the template is read and the destination is written.\<close>

lemma main_succeeds_iff:
  "fst (main file w) = Inr () \<longleftrightarrow>
     (\<exists>t. read_result (TEMPLATE_PATH file) w = Inr t) \<and>
     nodes w TARGET_PATH \<noteq> Some Directory \<and> may_write w TARGET_PATH = WriteOk"
proof (cases rule: main_outcomes [of w "file"])
  case missing
  then show ?thesis by (simp add: main_missing read_result_def)
next
  case (unreadable e)
  then show ?thesis by (simp add: main_unreadable)
next
  case (target_directory t)
  then show ?thesis by (simp add: main_target_directory)
next
  case (open_fails t)
  then show ?thesis by (simp add: main_open_fails)
next
  case (write_fails t)
  then show ?thesis by (simp add: main_write_fails)
next
  case (ok t)
  then show ?thesis by (simp add: main_ok)
qed

lemma main_success:
  assumes "read_result (TEMPLATE_PATH file) w = Inr t" and "fst (main file w) = Inr ()"
  shows "main file w =
    (Inr (),
     w\<lparr>nodes := (nodes w)(TARGET_PATH \<mapsto> TextFile (normalized t)),
       stdout := stdout w @ [confirmation (normalized t)],
       trace := trace w @ [Exists (TEMPLATE_PATH file) True,
          ReadText (TEMPLATE_PATH file) (Inr t),
          WriteText TARGET_PATH (normalized t) (Inr ()),
          Print (confirmation (normalized t))]\<rparr>)"
  using assms main_succeeds_iff [of "file" w] by (simp add: main_ok)

text \<open>Reading one path does not depend on the node at another.\<close>

lemma read_result_other_node:
  "p \<noteq> q \<Longrightarrow> read_result p (w\<lparr>nodes := (nodes w)(q := n)\<rparr>) = read_result p w"
  by (simp add: read_result_def split: option.split)

lemma read_with_both:
  "read_result (TEMPLATE_PATH script_file) (with_both s old ws) = Inr (universal_newlines s)"
  using template_file_not_target
  by (simp add: read_result_def with_both_def fresh_def TEMPLATE_PATH_script_file)

lemma main_with_both:
  assumes "old \<noteq> Directory"
  shows "main script_file (with_both s old WriteOk) =
     (Inr (),
      (with_both s old WriteOk)
        \<lparr>nodes := (nodes (with_both s old WriteOk))
                    (TARGET_PATH \<mapsto> TextFile (normalized (universal_newlines s))),
         stdout := [confirmation (normalized (universal_newlines s))],
         trace := [Exists template_file True,
                   ReadText template_file (Inr (universal_newlines s)),
                   WriteText TARGET_PATH (normalized (universal_newlines s)) (Inr ()),
                   Print (confirmation (normalized (universal_newlines s)))]\<rparr>)"
proof -
  have "may_write (with_both s old WriteOk) TARGET_PATH = WriteOk"
    and "stdout (with_both s old WriteOk) = []" and "trace (with_both s old WriteOk) = []"
    and "nodes (with_both s old WriteOk) TARGET_PATH \<noteq> Some Directory"
    using assms by (simp_all add: with_both_def fresh_def)
  then show ?thesis
    using main_ok [OF read_with_both, of s old WriteOk]
    by (simp add: TEMPLATE_PATH_script_file)
qed

text \<open>Reading depends on the node and on the permission only; normalizing twice changes nothing.\<close>

lemma read_result_cong:
  "nodes w' p = nodes w p \<Longrightarrow> may_read w' p = may_read w p \<Longrightarrow>
   read_result p w' = read_result p w"
  by (simp add: read_result_def split: option.split)

lemma normalized_idem: "normalized (normalized s) = normalized s"
  by (simp add: normalized_def rstrip_snoc_space LF_is_space rstrip_idem)

text \<open>What a run leaves as it was.\<close>

lemma main_keeps:
  "nodes (snd (main file w)) (TEMPLATE_PATH file) = nodes w (TEMPLATE_PATH file) \<and>
   may_read (snd (main file w)) = may_read w \<and>
   may_write (snd (main file w)) = may_write w \<and>
   (nodes (snd (main file w)) TARGET_PATH = Some Directory \<longleftrightarrow>
      nodes w TARGET_PATH = Some Directory)"
proof (cases rule: main_outcomes [of w "file"])
  case missing
  show ?thesis unfolding main_missing [OF missing] by simp
next
  case (unreadable e)
  show ?thesis unfolding main_unreadable [OF unreadable] by simp
next
  case (target_directory t)
  show ?thesis unfolding main_target_directory [OF target_directory] by simp
next
  case (open_fails t)
  show ?thesis unfolding main_open_fails [OF open_fails] by simp
next
  case (write_fails t)
  show ?thesis unfolding main_write_fails [OF write_fails]
    using template_not_target [of "file"] write_fails(2) by simp
next
  case (ok t)
  show ?thesis unfolding main_ok [OF ok]
    using template_not_target [of "file"] ok(2) by simp
qed

lemma read_result_after_main:
  "read_result (TEMPLATE_PATH file) (snd (main file w)) = read_result (TEMPLATE_PATH file) w"
  by (rule read_result_cong) (simp_all add: main_keeps)

text \<open>Two runs that fail, and the values of the template \<^verbatim>\<open>"abc\n\n\n"\<close>.\<close>

lemma main_with_template_unwritable:
  "main script_file (with_template s OpenFails) =
     (Inl (OSError TARGET_PATH),
      (with_template s OpenFails)
        \<lparr>trace := [Exists template_file True,
                   ReadText template_file (Inr (universal_newlines s)),
                   WriteText TARGET_PATH (normalized (universal_newlines s))
                     (Inl (OSError TARGET_PATH))]\<rparr>)"
proof -
  have "may_write (with_template s OpenFails) TARGET_PATH = OpenFails"
    and "trace (with_template s OpenFails) = []"
    by (simp_all add: with_template_def fresh_def)
  then show ?thesis
    using main_open_fails [OF read_with_template, of s OpenFails]
    by (simp add: target_with_template TEMPLATE_PATH_script_file)
qed

lemma main_without_template:
  "main script_file (fresh Map.empty ws) =
     (Inl (FileNotFoundError ''Template not found: scripts/contacts-import-modal.tsx.template''),
      (fresh Map.empty ws)\<lparr>trace := [Exists template_file False]\<rparr>)"
proof -
  have "nodes (fresh Map.empty ws) (TEMPLATE_PATH script_file) = None"
    and "trace (fresh Map.empty ws) = []"
    by (simp_all add: fresh_def)
  then show ?thesis
    using main_missing [of "fresh Map.empty ws" script_file]
    by (simp add: TEMPLATE_PATH_script_file) (simp add: template_file_def)
qed

lemma abc_facts:
  "universal_newlines (ascii ''abc'' @ [LF, LF, LF]) = ascii ''abc'' @ [LF, LF, LF]"
  "normalized (ascii ''abc'' @ [LF, LF, LF]) = ascii ''abc'' @ [LF]"
  "confirmation (ascii ''abc'' @ [LF]) =
     ''Wrote app/(dashboard)/contacts/contacts-import-modal.tsx (1 lines)''"
proof -
  show "universal_newlines (ascii ''abc'' @ [LF, LF, LF]) = ascii ''abc'' @ [LF, LF, LF]"
    by (simp add: ascii_def)
  show "normalized (ascii ''abc'' @ [LF, LF, LF]) = ascii ''abc'' @ [LF]"
    by (simp add: normalized_def rstrip_def ascii_def is_space_def)
  have "length (splitlines (ascii ''abc'' @ [LF])) = 1"
    by (simp add: splitlines_def ascii_def is_linebreak_def)
  then show "confirmation (ascii ''abc'' @ [LF]) =
     ''Wrote app/(dashboard)/contacts/contacts-import-modal.tsx (1 lines)''"
    by (simp add: confirmation_def TARGET_PATH_def decimal.simps)
qed

text \<open>A text that was read is the translated content of a text file.\<close>

lemma read_result_text:
  assumes "read_result p w = Inr t"
  shows "\<exists>s. nodes w p = Some (TextFile s) \<and> t = universal_newlines s"
  using assms
  by (auto simp: read_result_def split: option.splits if_splits node.splits)

section \<open>The claims\<close>

text \<open>
  C3. When the template is absent, \<open>main\<close> raises \<open>FileNotFoundError\<close> with a message
  that ends in the missing path. The only call it has made is the test for existence, so no
  write was attempted, and every node is as before: a destination that was there keeps its
  content and one that was not there is not created.
\<close>

theorem missing_template_raises:
  assumes "nodes w (TEMPLATE_PATH file) = None"
  shows "fst (main file w) =
           Inl (FileNotFoundError (''Template not found: '' @ TEMPLATE_PATH file)) \<and>
         performed w (snd (main file w)) = [Exists (TEMPLATE_PATH file) False] \<and>
         nodes (snd (main file w)) = nodes w \<and>
         nodes (snd (main file w)) TARGET_PATH = nodes w TARGET_PATH"
  by (simp add: main_missing [OF assms])

theorem missing_template_raises_witness:
  "nodes (fresh (Map.empty(TARGET_PATH \<mapsto> TextFile (ascii ''old''))) WriteOk)
     (TEMPLATE_PATH script_file) = None \<and>
   fst (main script_file (fresh (Map.empty(TARGET_PATH \<mapsto> TextFile (ascii ''old''))) WriteOk)) =
     Inl (FileNotFoundError ''Template not found: scripts/contacts-import-modal.tsx.template'') \<and>
   nodes (snd (main script_file (fresh (Map.empty(TARGET_PATH \<mapsto> TextFile (ascii ''old''))) WriteOk)))
     TARGET_PATH = Some (TextFile (ascii ''old'')) \<and>
   nodes (snd (main script_file (fresh Map.empty WriteOk))) TARGET_PATH = None"
proof -
  have absent: "nodes (fresh (Map.empty(TARGET_PATH \<mapsto> TextFile (ascii ''old''))) WriteOk)
     (TEMPLATE_PATH script_file) = None"
    using template_file_not_target by (simp add: fresh_def TEMPLATE_PATH_script_file)
  have absent': "nodes (fresh Map.empty WriteOk) (TEMPLATE_PATH script_file) = None"
    by (simp add: fresh_def)
  have msg: "''Template not found: '' @ TEMPLATE_PATH script_file =
     ''Template not found: scripts/contacts-import-modal.tsx.template''"
    by (simp add: TEMPLATE_PATH_script_file template_file_def)
  show ?thesis
    using absent missing_template_raises [OF absent] missing_template_raises [OF absent'] msg
    by (simp add: fresh_def)
qed

text \<open>
  C1. Whenever the template is read as the text \<open>text\<close>, the one write that the run makes
  goes to the destination and carries \<open>rstrip text\<close> followed by one newline, and after a
  successful run the destination holds exactly that. \<open>rstrip text\<close> is \<open>text\<close> without
  all the white space at its end: what was removed is white space only, and what is left
  does not end in white space. For the template \<^verbatim>\<open>"abc\n\n\n"\<close> this is \<^verbatim>\<open>"abc\n"\<close>.
\<close>

theorem destination_is_normalized_template:
  assumes "read_result (TEMPLATE_PATH file) w = Inr text"
  shows "(\<exists>r rest. performed w (snd (main file w)) =
            [Exists (TEMPLATE_PATH file) True, ReadText (TEMPLATE_PATH file) (Inr text),
             WriteText TARGET_PATH (rstrip text @ [LF]) r] @ rest) \<and>
         (fst (main file w) = Inr () \<longrightarrow>
            nodes (snd (main file w)) TARGET_PATH = Some (TextFile (rstrip text @ [LF]))) \<and>
         (\<exists>ws. text = rstrip text @ ws \<and> (\<forall>c\<in>set ws. is_space c)) \<and>
         (rstrip text \<noteq> [] \<longrightarrow> \<not> is_space (last (rstrip text))) \<and>
         (text = ascii ''abc'' @ [LF, LF, LF] \<longrightarrow> rstrip text @ [LF] = ascii ''abc'' @ [LF])"
proof (intro conjI)
  show "\<exists>r rest. performed w (snd (main file w)) =
            [Exists (TEMPLATE_PATH file) True, ReadText (TEMPLATE_PATH file) (Inr text),
             WriteText TARGET_PATH (rstrip text @ [LF]) r] @ rest"
  proof (cases rule: main_outcomes [of w "file"])
    case missing
    with assms show ?thesis by (simp add: read_result_def)
  next
    case (unreadable e)
    with assms show ?thesis by simp
  next
    case (target_directory t)
    with assms show ?thesis by (simp add: main_target_directory normalized_def)
  next
    case (open_fails t)
    with assms show ?thesis by (simp add: main_open_fails normalized_def)
  next
    case (write_fails t)
    with assms show ?thesis by (simp add: main_write_fails normalized_def)
  next
    case (ok t)
    with assms show ?thesis by (simp add: main_ok normalized_def)
  qed
next
  show "fst (main file w) = Inr () \<longrightarrow>
          nodes (snd (main file w)) TARGET_PATH = Some (TextFile (rstrip text @ [LF]))"
  proof (cases rule: main_outcomes [of w "file"])
    case missing
    then show ?thesis by (simp add: main_missing)
  next
    case (unreadable e)
    then show ?thesis by (simp add: main_unreadable)
  next
    case (target_directory t)
    then show ?thesis by (simp add: main_target_directory)
  next
    case (open_fails t)
    then show ?thesis by (simp add: main_open_fails)
  next
    case (write_fails t)
    then show ?thesis by (simp add: main_write_fails)
  next
    case (ok t)
    with assms show ?thesis by (simp add: main_ok normalized_def)
  qed
next
  have "text = rstrip text @ rev (takeWhile is_space (rev text))"
    by (simp add: rstrip_split)
  moreover have "\<forall>c\<in>set (rev (takeWhile is_space (rev text))). is_space c"
    by (auto dest: set_takeWhileD)
  ultimately show "\<exists>ws. text = rstrip text @ ws \<and> (\<forall>c\<in>set ws. is_space c)"
    by blast
next
  show "rstrip text \<noteq> [] \<longrightarrow> \<not> is_space (last (rstrip text))"
    using rstrip_last by blast
next
  show "text = ascii ''abc'' @ [LF, LF, LF] \<longrightarrow> rstrip text @ [LF] = ascii ''abc'' @ [LF]"
    by (simp add: rstrip_def ascii_def is_space_def)
qed

theorem destination_is_normalized_template_witness:
  "read_result (TEMPLATE_PATH script_file)
     (with_template (ascii ''abc'' @ [LF, LF, LF]) WriteOk) = Inr (ascii ''abc'' @ [LF, LF, LF]) \<and>
   fst (main script_file (with_template (ascii ''abc'' @ [LF, LF, LF]) WriteOk)) = Inr () \<and>
   nodes (snd (main script_file (with_template (ascii ''abc'' @ [LF, LF, LF]) WriteOk)))
     TARGET_PATH = Some (TextFile (ascii ''abc'' @ [LF]))"
proof -
  have r: "read_result (TEMPLATE_PATH script_file)
     (with_template (ascii ''abc'' @ [LF, LF, LF]) WriteOk) = Inr (ascii ''abc'' @ [LF, LF, LF])"
    by (simp add: read_with_template ascii_def)
  have s: "fst (main script_file (with_template (ascii ''abc'' @ [LF, LF, LF]) WriteOk)) = Inr ()"
    by (simp add: main_with_template)
  from destination_is_normalized_template [OF r] s r show ?thesis
    by simp
qed

text \<open>
  C2, as stated, fails. The template \<^verbatim>\<open>"a\fb\fc\n"\<close> is its own normalized content and
  has one newline-delimited segment, yet the run reports three lines: \<open>splitlines\<close> ends a
  line at a form feed too.
\<close>

theorem line_count_counterexample:
  "nodes (snd (main script_file (with_template ff_template WriteOk))) TARGET_PATH =
     Some (TextFile ff_template) \<and>
   newline_segments ff_template = [ascii ''a'' @ [0x0C] @ ascii ''b'' @ [0x0C] @ ascii ''c''] \<and>
   length (newline_segments ff_template) = 1 \<and>
   count_list ff_template LF = 1 \<and>
   stdout (snd (main script_file (with_template ff_template WriteOk))) =
     [''Wrote app/(dashboard)/contacts/contacts-import-modal.tsx (3 lines)'']"
proof -
  have u: "universal_newlines ff_template = ff_template"
    by (simp add: ff_template_def ascii_def)
  have n: "normalized ff_template = ff_template"
    by (simp add: normalized_def rstrip_def ff_template_def ascii_def is_space_def)
  have s: "newline_segments ff_template = [ascii ''a'' @ [0x0C] @ ascii ''b'' @ [0x0C] @ ascii ''c'']"
    by (simp add: newline_segments_def ff_template_def ascii_def)
  have l: "length (splitlines ff_template) = 3"
    by (simp add: splitlines_def ff_template_def ascii_def is_linebreak_def)
  have c: "confirmation ff_template =
     ''Wrote app/(dashboard)/contacts/contacts-import-modal.tsx (3 lines)''"
    by (simp add: confirmation_def l TARGET_PATH_def decimal.simps)
  have k: "count_list ff_template LF = 1"
    by (simp add: ff_template_def ascii_def)
  show ?thesis
    by (simp add: main_with_template u n s c k)
qed

text \<open>
  C2, amended. When the newline is the only line end in the normalized content (no VT, FF,
  FS, GS, RS, NEL, LINE SEPARATOR or PARAGRAPH SEPARATOR; a CR never arrives, since reading
  translates it), a successful run reports the number of newline-delimited segments, which
  is the number of newlines.
\<close>

theorem line_count_newlines_only:
  assumes "read_result (TEMPLATE_PATH file) w = Inr text" and "fst (main file w) = Inr ()"
    and "\<forall>c\<in>set (normalized text). is_linebreak c \<longrightarrow> c = LF"
  shows "stdout (snd (main file w)) =
           stdout w @ [''Wrote '' @ TARGET_PATH @ '' ('' @
             decimal (length (newline_segments (normalized text))) @ '' lines)''] \<and>
         length (newline_segments (normalized text)) = count_list (normalized text) LF"
proof -
  from assms(3) have "splitlines (normalized text) = newline_segments (normalized text)"
    by (simp add: splitlines_def newline_segments_def splitlines_only_LF)
  then have "confirmation (normalized text) =
      ''Wrote '' @ TARGET_PATH @ '' ('' @
             decimal (length (newline_segments (normalized text))) @ '' lines)''"
    by (simp add: confirmation_def)
  moreover have "length (newline_segments (normalized text)) = count_list (normalized text) LF"
    by (simp add: newline_segments_def length_newline_segments_from normalized_def)
  ultimately show ?thesis
    using main_success [OF assms(1,2)] by simp
qed

theorem line_count_newlines_only_witness:
  "read_result (TEMPLATE_PATH script_file) (with_template two_lines WriteOk) = Inr two_lines \<and>
   fst (main script_file (with_template two_lines WriteOk)) = Inr () \<and>
   list_all (\<lambda>c. c = LF \<or> \<not> is_linebreak c) (normalized two_lines) \<and>
   length (newline_segments (normalized two_lines)) = 2 \<and>
   stdout (snd (main script_file (with_template two_lines WriteOk))) =
     [''Wrote app/(dashboard)/contacts/contacts-import-modal.tsx (2 lines)'']"
proof -
  have n: "normalized two_lines = two_lines"
    by (simp add: normalized_def rstrip_def two_lines_def ascii_def is_space_def)
  have r: "read_result (TEMPLATE_PATH script_file) (with_template two_lines WriteOk) = Inr two_lines"
    by (simp add: read_with_template two_lines_def ascii_def)
  have s: "fst (main script_file (with_template two_lines WriteOk)) = Inr ()"
    by (simp add: main_with_template)
  have b: "list_all (\<lambda>c. c = LF \<or> \<not> is_linebreak c) (normalized two_lines)"
    by (simp add: n) (simp add: two_lines_def ascii_def is_linebreak_def)
  then have h: "\<forall>c\<in>set (normalized two_lines). is_linebreak c \<longrightarrow> c = LF"
    by (auto simp: list_all_iff)
  have k: "length (newline_segments (normalized two_lines)) = 2"
    by (simp add: n) (simp add: newline_segments_def two_lines_def ascii_def)
  have e: "stdout (with_template two_lines WriteOk) = []"
    by (simp add: with_template_def fresh_def)
  from line_count_newlines_only [OF r s h] r s b k e show ?thesis
    by (simp add: TARGET_PATH_def decimal.simps)
qed

text \<open>
  C4. When the destination is there before the run, with any content, a successful run
  leaves exactly the normalized template in it. The old content has no influence: with any
  other file in its place the run succeeds as well and leaves the same content.
\<close>

theorem overwrite_ignores_old_content:
  assumes "nodes w TARGET_PATH = Some old"
    and "read_result (TEMPLATE_PATH file) w = Inr text" and "fst (main file w) = Inr ()"
  shows "nodes (snd (main file w)) TARGET_PATH = Some (TextFile (normalized text)) \<and>
         (\<forall>other. other \<noteq> Directory \<longrightarrow>
            fst (main file (w\<lparr>nodes := (nodes w)(TARGET_PATH \<mapsto> other)\<rparr>)) = Inr () \<and>
            nodes (snd (main file (w\<lparr>nodes := (nodes w)(TARGET_PATH \<mapsto> other)\<rparr>))) TARGET_PATH =
              Some (TextFile (normalized text)))"
proof (intro conjI allI impI)
  show "nodes (snd (main file w)) TARGET_PATH = Some (TextFile (normalized text))"
    by (simp add: main_success [OF assms(2,3)])
next
  fix other :: node
  assume other: "other \<noteq> Directory"
  let ?w = "w\<lparr>nodes := (nodes w)(TARGET_PATH \<mapsto> other)\<rparr>"
  have r: "read_result (TEMPLATE_PATH file) ?w = Inr text"
    using assms(2) by (simp add: read_result_other_node template_not_target)
  from assms(3) have "may_write w TARGET_PATH = WriteOk"
    by (simp add: main_succeeds_iff)
  with other r have s: "fst (main file ?w) = Inr ()"
    by (simp add: main_succeeds_iff)
  then show "fst (main file ?w) = Inr ()" .
  show "nodes (snd (main file ?w)) TARGET_PATH = Some (TextFile (normalized text))"
    by (simp add: main_success [OF r s])
qed

theorem overwrite_ignores_old_content_witness:
  "nodes (with_both (ascii ''abc'' @ [LF, LF, LF]) (TextFile (ascii ''unrelated'')) WriteOk)
     TARGET_PATH = Some (TextFile (ascii ''unrelated'')) \<and>
   read_result (TEMPLATE_PATH script_file)
     (with_both (ascii ''abc'' @ [LF, LF, LF]) (TextFile (ascii ''unrelated'')) WriteOk) =
     Inr (ascii ''abc'' @ [LF, LF, LF]) \<and>
   fst (main script_file
     (with_both (ascii ''abc'' @ [LF, LF, LF]) (TextFile (ascii ''unrelated'')) WriteOk)) = Inr () \<and>
   nodes (snd (main script_file
     (with_both (ascii ''abc'' @ [LF, LF, LF]) (TextFile (ascii ''unrelated'')) WriteOk)))
     TARGET_PATH = Some (TextFile (ascii ''abc'' @ [LF]))"
proof -
  let ?w = "with_both (ascii ''abc'' @ [LF, LF, LF]) (TextFile (ascii ''unrelated'')) WriteOk"
  have o: "nodes ?w TARGET_PATH = Some (TextFile (ascii ''unrelated''))"
    by (simp add: with_both_def fresh_def)
  have r: "read_result (TEMPLATE_PATH script_file) ?w = Inr (ascii ''abc'' @ [LF, LF, LF])"
    by (simp add: read_with_both ascii_def)
  have s: "fst (main script_file ?w) = Inr ()"
    by (simp add: main_with_both)
  have n: "normalized (ascii ''abc'' @ [LF, LF, LF]) = ascii ''abc'' @ [LF]"
    by (simp add: normalized_def rstrip_def ascii_def is_space_def)
  from overwrite_ignores_old_content [OF o r s] o r s n show ?thesis
    by simp
qed

text \<open>
  C5. For the template \<^verbatim>\<open>"export const X = 1;\n   \n"\<close> a successful run writes
  \<^verbatim>\<open>"export const X = 1;\n"\<close> and reports one line.
\<close>

theorem scenario_export_const:
  assumes "nodes w (TEMPLATE_PATH file) = Some (TextFile scenario_template)"
    and "fst (main file w) = Inr ()"
  shows "scenario_template = ascii ''export const X = 1;'' @ [LF] @ ascii ''   '' @ [LF] \<and>
         nodes (snd (main file w)) TARGET_PATH =
           Some (TextFile (ascii ''export const X = 1;'' @ [LF])) \<and>
         stdout (snd (main file w)) =
           stdout w @ [''Wrote app/(dashboard)/contacts/contacts-import-modal.tsx (1 lines)'']"
proof -
  from assms(2) obtain t where t: "read_result (TEMPLATE_PATH file) w = Inr t"
    by (auto simp: main_succeeds_iff)
  with assms(1) have "t = universal_newlines scenario_template"
    by (simp add: read_result_def split: if_splits)
  then have "t = scenario_template"
    by (simp add: scenario_template_def ascii_def)
  with t have r: "read_result (TEMPLATE_PATH file) w = Inr scenario_template"
    by simp
  have n: "normalized scenario_template = ascii ''export const X = 1;'' @ [LF]"
    by (simp add: normalized_def rstrip_def scenario_template_def ascii_def is_space_def)
  have "length (splitlines (ascii ''export const X = 1;'' @ [LF])) = 1"
    by (simp add: splitlines_def ascii_def is_linebreak_def)
  then have c: "confirmation (ascii ''export const X = 1;'' @ [LF]) =
      ''Wrote app/(dashboard)/contacts/contacts-import-modal.tsx (1 lines)''"
    by (simp add: confirmation_def TARGET_PATH_def decimal.simps)
  show ?thesis
    using main_success [OF r assms(2)] n c by (simp add: scenario_template_def)
qed

theorem scenario_export_const_witness:
  "nodes (with_template scenario_template WriteOk) (TEMPLATE_PATH script_file) =
     Some (TextFile scenario_template) \<and>
   fst (main script_file (with_template scenario_template WriteOk)) = Inr () \<and>
   nodes (snd (main script_file (with_template scenario_template WriteOk))) TARGET_PATH =
     Some (TextFile (ascii ''export const X = 1;'' @ [LF])) \<and>
   stdout (snd (main script_file (with_template scenario_template WriteOk))) =
     [''Wrote app/(dashboard)/contacts/contacts-import-modal.tsx (1 lines)'']"
proof -
  have t: "nodes (with_template scenario_template WriteOk) (TEMPLATE_PATH script_file) =
     Some (TextFile scenario_template)"
    by (simp add: with_template_def fresh_def TEMPLATE_PATH_script_file)
  have s: "fst (main script_file (with_template scenario_template WriteOk)) = Inr ()"
    by (simp add: main_with_template)
  have e: "stdout (with_template scenario_template WriteOk) = []"
    by (simp add: with_template_def fresh_def)
  from scenario_export_const [OF t s] t s e show ?thesis
    by simp
qed

text \<open>
  C8. A successful run never leaves an empty destination and never reports fewer than one
  line. When the template is empty or holds white space only, the destination holds a
  single newline and the run reports one line.
\<close>

theorem blank_template_one_line:
  assumes "read_result (TEMPLATE_PATH file) w = Inr text" and "fst (main file w) = Inr ()"
  shows "nodes (snd (main file w)) TARGET_PATH = Some (TextFile (normalized text)) \<and>
         normalized text \<noteq> [] \<and>
         stdout (snd (main file w)) =
           stdout w @ [''Wrote '' @ TARGET_PATH @ '' ('' @
             decimal (length (splitlines (normalized text))) @ '' lines)''] \<and>
         1 \<le> length (splitlines (normalized text)) \<and>
         ((\<forall>c\<in>set text. is_space c) \<longrightarrow>
            normalized text = [LF] \<and> length (splitlines (normalized text)) = 1 \<and>
            stdout (snd (main file w)) =
              stdout w @ [''Wrote app/(dashboard)/contacts/contacts-import-modal.tsx (1 lines)''])"
proof (intro conjI impI)
  show "nodes (snd (main file w)) TARGET_PATH = Some (TextFile (normalized text))"
    by (simp add: main_success [OF assms])
  show "normalized text \<noteq> []"
    by (simp add: normalized_def)
  then have "splitlines (normalized text) \<noteq> []"
    unfolding splitlines_def by (rule splitlines_from_nonempty)
  then show "1 \<le> length (splitlines (normalized text))"
    by (simp add: Suc_le_eq)
  show out: "stdout (snd (main file w)) =
           stdout w @ [''Wrote '' @ TARGET_PATH @ '' ('' @
             decimal (length (splitlines (normalized text))) @ '' lines)'']"
    by (simp add: main_success [OF assms] confirmation_def)
  assume "\<forall>c\<in>set text. is_space c"
  then show one: "normalized text = [LF]"
    by (simp add: normalized_def rstrip_all_space)
  then show len: "length (splitlines (normalized text)) = 1"
    by (simp add: splitlines_def LF_is_linebreak)
  show "stdout (snd (main file w)) =
      stdout w @ [''Wrote app/(dashboard)/contacts/contacts-import-modal.tsx (1 lines)'']"
    unfolding out len by (simp add: TARGET_PATH_def decimal.simps)
qed

theorem blank_template_one_line_witness:
  "read_result (TEMPLATE_PATH script_file) (with_template [] WriteOk) = Inr [] \<and>
   fst (main script_file (with_template [] WriteOk)) = Inr () \<and>
   nodes (snd (main script_file (with_template [] WriteOk))) TARGET_PATH = Some (TextFile [LF]) \<and>
   stdout (snd (main script_file (with_template [] WriteOk))) =
     [''Wrote app/(dashboard)/contacts/contacts-import-modal.tsx (1 lines)''] \<and>
   read_result (TEMPLATE_PATH script_file) (with_template blank_template WriteOk) =
     Inr blank_template \<and>
   list_all is_space blank_template \<and>
   fst (main script_file (with_template blank_template WriteOk)) = Inr () \<and>
   nodes (snd (main script_file (with_template blank_template WriteOk))) TARGET_PATH =
     Some (TextFile [LF]) \<and>
   stdout (snd (main script_file (with_template blank_template WriteOk))) =
     [''Wrote app/(dashboard)/contacts/contacts-import-modal.tsx (1 lines)'']"
proof -
  have r0: "read_result (TEMPLATE_PATH script_file) (with_template [] WriteOk) = Inr []"
    by (simp add: read_with_template)
  have s0: "fst (main script_file (with_template [] WriteOk)) = Inr ()"
    by (simp add: main_with_template)
  have r1: "read_result (TEMPLATE_PATH script_file) (with_template blank_template WriteOk) =
     Inr blank_template"
    by (simp add: read_with_template blank_template_def)
  have s1: "fst (main script_file (with_template blank_template WriteOk)) = Inr ()"
    by (simp add: main_with_template)
  have b: "list_all is_space blank_template"
    by (simp add: blank_template_def is_space_def)
  then have b': "\<forall>c\<in>set blank_template. is_space c"
    by (simp add: list_all_iff)
  have e: "stdout (with_template [] WriteOk) = []" "stdout (with_template blank_template WriteOk) = []"
    by (simp_all add: with_template_def fresh_def)
  have a0: "nodes (snd (main script_file (with_template [] WriteOk))) TARGET_PATH =
        Some (TextFile [LF]) \<and>
      stdout (snd (main script_file (with_template [] WriteOk))) =
        [''Wrote app/(dashboard)/contacts/contacts-import-modal.tsx (1 lines)'']"
    using blank_template_one_line [OF r0 s0] e by auto
  have a1: "nodes (snd (main script_file (with_template blank_template WriteOk))) TARGET_PATH =
        Some (TextFile [LF]) \<and>
      stdout (snd (main script_file (with_template blank_template WriteOk))) =
        [''Wrote app/(dashboard)/contacts/contacts-import-modal.tsx (1 lines)'']"
    using blank_template_one_line [OF r1 s1] b' e by auto
  from a0 a1 b r0 s0 r1 s1 show ?thesis
    by simp
qed

text \<open>
  C6. A second run right after the first ends as the first did and leaves in the destination
  what the first left there; the first run does not touch the template. Normalizing a
  normalized text changes nothing.
\<close>

theorem second_run_same_destination:
  "nodes (snd (main file (snd (main file w)))) TARGET_PATH =
     nodes (snd (main file w)) TARGET_PATH \<and>
   fst (main file (snd (main file w))) = fst (main file w) \<and>
   nodes (snd (main file w)) (TEMPLATE_PATH file) = nodes w (TEMPLATE_PATH file) \<and>
   normalized (normalized text) = normalized text"
proof -
  define w1 where "w1 = snd (main file w)"
  have r: "read_result (TEMPLATE_PATH file) w1 = read_result (TEMPLATE_PATH file) w"
    unfolding w1_def by (rule read_result_after_main)
  have t: "nodes w1 (TEMPLATE_PATH file) = nodes w (TEMPLATE_PATH file)"
    and p: "may_write w1 = may_write w"
    and d: "nodes w1 TARGET_PATH = Some Directory \<longleftrightarrow> nodes w TARGET_PATH = Some Directory"
    unfolding w1_def using main_keeps [of "file" w] by simp_all
  have "nodes (snd (main file w1)) TARGET_PATH = nodes w1 TARGET_PATH \<and>
        fst (main file w1) = fst (main file w)"
  proof (cases rule: main_outcomes [of w "file"])
    case missing
    then have 1: "nodes w1 (TEMPLATE_PATH file) = None"
      using t by simp
    show ?thesis
      unfolding main_missing [OF 1] main_missing [OF missing] by simp
  next
    case (unreadable e)
    then have 1: "nodes w1 (TEMPLATE_PATH file) \<noteq> None"
      and 2: "read_result (TEMPLATE_PATH file) w1 = Inl e"
      using t r by simp_all
    show ?thesis
      unfolding main_unreadable [OF 1 2] main_unreadable [OF unreadable] by simp
  next
    case (target_directory u)
    then have 1: "read_result (TEMPLATE_PATH file) w1 = Inr u"
      and 2: "nodes w1 TARGET_PATH = Some Directory"
      using r d by simp_all
    show ?thesis
      unfolding main_target_directory [OF 1 2] main_target_directory [OF target_directory]
      by simp
  next
    case (open_fails u)
    then have 1: "read_result (TEMPLATE_PATH file) w1 = Inr u"
      and 2: "nodes w1 TARGET_PATH \<noteq> Some Directory"
      and 3: "may_write w1 TARGET_PATH = OpenFails"
      using r d p by simp_all
    show ?thesis
      unfolding main_open_fails [OF 1 2 3] main_open_fails [OF open_fails] by simp
  next
    case (write_fails u)
    then have 1: "read_result (TEMPLATE_PATH file) w1 = Inr u"
      and 2: "nodes w1 TARGET_PATH \<noteq> Some Directory"
      and 3: "may_write w1 TARGET_PATH = WriteFails"
      using r d p by simp_all
    have 4: "nodes w1 TARGET_PATH = Some (TextFile [])"
      unfolding w1_def main_write_fails [OF write_fails] by simp
    show ?thesis
      unfolding main_write_fails [OF 1 2 3] main_write_fails [OF write_fails]
      using 4 by simp
  next
    case (ok u)
    then have 1: "read_result (TEMPLATE_PATH file) w1 = Inr u"
      and 2: "nodes w1 TARGET_PATH \<noteq> Some Directory"
      and 3: "may_write w1 TARGET_PATH = WriteOk"
      using r d p by simp_all
    have 4: "nodes w1 TARGET_PATH = Some (TextFile (normalized u))"
      unfolding w1_def main_ok [OF ok] by simp
    show ?thesis
      unfolding main_ok [OF 1 2 3] main_ok [OF ok]
      using 4 by simp
  qed
  then show ?thesis
    using t by (simp add: w1_def normalized_idem)
qed

theorem second_run_same_destination_witness:
  "nodes (snd (main script_file (with_template (ascii ''abc'' @ [LF, LF, LF]) WriteOk)))
     TARGET_PATH = Some (TextFile (ascii ''abc'' @ [LF])) \<and>
   nodes (snd (main script_file
       (snd (main script_file (with_template (ascii ''abc'' @ [LF, LF, LF]) WriteOk)))))
     TARGET_PATH = Some (TextFile (ascii ''abc'' @ [LF])) \<and>
   normalized (normalized (ascii ''abc'' @ [LF, LF, LF])) = ascii ''abc'' @ [LF]"
proof -
  have n: "normalized (ascii ''abc'' @ [LF, LF, LF]) = ascii ''abc'' @ [LF]"
    by (simp add: normalized_def rstrip_def ascii_def is_space_def)
  have u: "universal_newlines (ascii ''abc'' @ [LF, LF, LF]) = ascii ''abc'' @ [LF, LF, LF]"
    by (simp add: ascii_def)
  have 1: "nodes (snd (main script_file (with_template (ascii ''abc'' @ [LF, LF, LF]) WriteOk)))
     TARGET_PATH = Some (TextFile (ascii ''abc'' @ [LF]))"
    by (simp add: main_with_template u n)
  have 2: "nodes (snd (main script_file
       (snd (main script_file (with_template (ascii ''abc'' @ [LF, LF, LF]) WriteOk)))))
     TARGET_PATH = Some (TextFile (ascii ''abc'' @ [LF])) \<and>
     normalized (normalized (ascii ''abc'' @ [LF, LF, LF])) =
       normalized (ascii ''abc'' @ [LF, LF, LF])"
    using second_run_same_destination
         [of script_file "with_template (ascii ''abc'' @ [LF, LF, LF]) WriteOk"
             "ascii ''abc'' @ [LF, LF, LF]"] 1
    by simp
  from 1 2 n show ?thesis by simp
qed

text \<open>
  C7. The process ends with status 0 exactly when the template exists and the write to the
  destination succeeded; then the confirmation message is the one line printed and nothing
  is reported as an error. Otherwise it ends with status 1, prints nothing and reports the
  error that \<open>main\<close> raised. \<open>main\<close> raises an error exactly when the template is missing
  (its own \<open>FileNotFoundError\<close>) or a call failed with that error: no failure of a call is
  caught or replaced.
\<close>

theorem exit_status:
  "(fst (script file w) = 0 \<longleftrightarrow>
      nodes w (TEMPLATE_PATH file) \<noteq> None \<and>
      (\<exists>s. WriteText TARGET_PATH s (Inr ()) \<in> set (performed w (snd (main file w))))) \<and>
   (fst (script file w) = 0 \<longrightarrow>
      (\<exists>t. read_result (TEMPLATE_PATH file) w = Inr t \<and>
           stdout (snd (script file w)) = stdout w @ [confirmation (normalized t)]) \<and>
      stderr (snd (script file w)) = stderr w) \<and>
   (fst (script file w) \<noteq> 0 \<longrightarrow>
      fst (script file w) = 1 \<and> stdout (snd (script file w)) = stdout w \<and>
      (\<exists>e. fst (main file w) = Inl e \<and> stderr (snd (script file w)) = stderr w @ [e])) \<and>
   (\<forall>e. fst (main file w) = Inl e \<longleftrightarrow>
      nodes w (TEMPLATE_PATH file) = None \<and>
        e = FileNotFoundError (''Template not found: '' @ TEMPLATE_PATH file) \<or>
      (\<exists>p. ReadText p (Inl e) \<in> set (performed w (snd (main file w)))) \<or>
      (\<exists>p s. WriteText p s (Inl e) \<in> set (performed w (snd (main file w)))))"
proof (cases rule: main_outcomes [of w "file"])
  case missing
  show ?thesis
    unfolding script_def main_missing [OF missing] using missing by auto
next
  case (unreadable e)
  show ?thesis
    unfolding script_def main_unreadable [OF unreadable] using unreadable by auto
next
  case (target_directory t)
  show ?thesis
    unfolding script_def main_target_directory [OF target_directory]
    using target_directory read_result_present [OF target_directory(1)] by auto
next
  case (open_fails t)
  show ?thesis
    unfolding script_def main_open_fails [OF open_fails]
    using open_fails read_result_present [OF open_fails(1)] by auto
next
  case (write_fails t)
  show ?thesis
    unfolding script_def main_write_fails [OF write_fails]
    using write_fails read_result_present [OF write_fails(1)] by auto
next
  case (ok t)
  show ?thesis
    unfolding script_def main_ok [OF ok]
    using ok read_result_present [OF ok(1)] by auto
qed


theorem exit_status_witness:
  "fst (script script_file (with_template (ascii ''abc'' @ [LF, LF, LF]) WriteOk)) = 0 \<and>
   stdout (snd (script script_file (with_template (ascii ''abc'' @ [LF, LF, LF]) WriteOk))) =
     [''Wrote app/(dashboard)/contacts/contacts-import-modal.tsx (1 lines)''] \<and>
   stderr (snd (script script_file (with_template (ascii ''abc'' @ [LF, LF, LF]) WriteOk))) = [] \<and>
   fst (script script_file (fresh Map.empty WriteOk)) = 1 \<and>
   stdout (snd (script script_file (fresh Map.empty WriteOk))) = [] \<and>
   stderr (snd (script script_file (fresh Map.empty WriteOk))) =
     [FileNotFoundError ''Template not found: scripts/contacts-import-modal.tsx.template''] \<and>
   fst (script script_file (with_template (ascii ''abc'' @ [LF, LF, LF]) OpenFails)) = 1 \<and>
   stdout (snd (script script_file (with_template (ascii ''abc'' @ [LF, LF, LF]) OpenFails))) = [] \<and>
   stderr (snd (script script_file (with_template (ascii ''abc'' @ [LF, LF, LF]) OpenFails))) =
     [OSError TARGET_PATH]"
proof -
  let ?abc = "ascii ''abc'' @ [LF, LF, LF]"
  let ?ok = "with_template ?abc WriteOk"
  let ?none = "fresh Map.empty WriteOk"
  let ?unw = "with_template ?abc OpenFails"
  have e: "stdout ?ok = []" "stderr ?ok = []" "stdout ?none = []" "stderr ?none = []"
    "stdout ?unw = []" "stderr ?unw = []" "trace ?ok = []"
    by (simp_all add: with_template_def fresh_def)
  have "nodes ?ok (TEMPLATE_PATH script_file) \<noteq> None"
    by (simp add: with_template_def fresh_def TEMPLATE_PATH_script_file)
  moreover have "WriteText TARGET_PATH (ascii ''abc'' @ [LF]) (Inr ())
      \<in> set (performed ?ok (snd (main script_file ?ok)))"
    by (simp add: main_with_template abc_facts performed_def e)
  ultimately have ok0: "fst (script script_file ?ok) = 0"
    using exit_status [of script_file ?ok] by blast
  have r: "read_result (TEMPLATE_PATH script_file) ?ok = Inr ?abc"
    by (simp add: read_with_template abc_facts)
  from ok0 r have ok1: "stdout (snd (script script_file ?ok)) =
       [''Wrote app/(dashboard)/contacts/contacts-import-modal.tsx (1 lines)''] \<and>
     stderr (snd (script script_file ?ok)) = []"
    using exit_status [of script_file ?ok] e by (auto simp: abc_facts)
  have "nodes ?none (TEMPLATE_PATH script_file) = None"
    by (simp add: fresh_def)
  then have "fst (script script_file ?none) \<noteq> 0"
    using exit_status [of script_file ?none] by blast
  moreover have "fst (main script_file ?none) =
      Inl (FileNotFoundError ''Template not found: scripts/contacts-import-modal.tsx.template'')"
    by (simp add: main_without_template)
  ultimately have none1: "fst (script script_file ?none) = 1 \<and>
      stdout (snd (script script_file ?none)) = [] \<and>
      stderr (snd (script script_file ?none)) =
        [FileNotFoundError ''Template not found: scripts/contacts-import-modal.tsx.template'']"
    using exit_status [of script_file ?none] e by auto
  have m: "fst (main script_file ?unw) = Inl (OSError TARGET_PATH)"
    by (simp add: main_with_template_unwritable)
  have "fst (script script_file ?unw) \<noteq> 0"
    by (simp add: script_def main_with_template_unwritable)
  with m have unw1: "fst (script script_file ?unw) = 1 \<and>
      stdout (snd (script script_file ?unw)) = [] \<and>
      stderr (snd (script script_file ?unw)) = [OSError TARGET_PATH]"
    using exit_status [of script_file ?unw] e by auto
  from ok0 ok1 none1 unw1 show ?thesis
    by simp
qed

text \<open>
  C9. Whether a run succeeds or fails, every path other than the destination names the same
  node after it as before: nothing else is created, changed or removed. The only path the
  run tests or reads is the template, the only path it opens for writing is the
  destination, and the interpreter's report of an error touches no file.
\<close>

theorem only_destination_changes:
  "(\<forall>p. p \<noteq> TARGET_PATH \<longrightarrow> nodes (snd (main file w)) p = nodes w p) \<and>
   (\<forall>ev\<in>set (performed w (snd (main file w))).
      set (reads_of ev) \<subseteq> {TEMPLATE_PATH file} \<and> set (writes_of ev) \<subseteq> {TARGET_PATH}) \<and>
   nodes (snd (script file w)) = nodes (snd (main file w)) \<and>
   trace (snd (script file w)) = trace (snd (main file w))"
proof (cases rule: main_outcomes [of w "file"])
  case missing
  show ?thesis
    unfolding script_def main_missing [OF missing] by simp
next
  case (unreadable e)
  show ?thesis
    unfolding script_def main_unreadable [OF unreadable] by simp
next
  case (target_directory t)
  show ?thesis
    unfolding script_def main_target_directory [OF target_directory] by simp
next
  case (open_fails t)
  show ?thesis
    unfolding script_def main_open_fails [OF open_fails] by simp
next
  case (write_fails t)
  show ?thesis
    unfolding script_def main_write_fails [OF write_fails] by simp
next
  case (ok t)
  show ?thesis
    unfolding script_def main_ok [OF ok] by simp
qed


theorem only_destination_changes_witness:
  "nodes (snd (main script_file (with_readme WriteOk))) ''README.md'' =
     Some (TextFile (ascii ''hello'')) \<and>
   nodes (snd (main script_file (with_readme WriteOk))) template_file =
     Some (TextFile (ascii ''abc'' @ [LF, LF, LF])) \<and>
   nodes (snd (main script_file (with_readme WriteFails))) ''README.md'' =
     Some (TextFile (ascii ''hello'')) \<and>
   nodes (snd (main script_file (with_readme WriteFails))) template_file =
     Some (TextFile (ascii ''abc'' @ [LF, LF, LF]))"
proof -
  have a: "''README.md'' \<noteq> TARGET_PATH"
    by (simp add: TARGET_PATH_def)
  have b: "nodes (with_readme ws) ''README.md'' = Some (TextFile (ascii ''hello''))"
    and c: "nodes (with_readme ws) template_file =
      Some (TextFile (ascii ''abc'' @ [LF, LF, LF]))" for ws
    by (simp_all add: with_readme_def fresh_def template_file_def)
  from only_destination_changes [of script_file "with_readme WriteOk"]
       only_destination_changes [of script_file "with_readme WriteFails"]
       a template_file_not_target
  show ?thesis
    by (simp add: b c)
qed

text \<open>
  C10, as stated, fails. Two worlds hold the same template; in the second the destination
  cannot be opened for writing. The first run writes the destination and prints the message,
  the second raises \<open>OSError\<close>, creates no destination and prints nothing.
\<close>

theorem runs_differ_counterexample:
  "nodes (with_template (ascii ''abc'' @ [LF, LF, LF]) WriteOk) (TEMPLATE_PATH script_file) =
   nodes (with_template (ascii ''abc'' @ [LF, LF, LF]) OpenFails) (TEMPLATE_PATH script_file) \<and>
   fst (main script_file (with_template (ascii ''abc'' @ [LF, LF, LF]) WriteOk)) = Inr () \<and>
   nodes (snd (main script_file (with_template (ascii ''abc'' @ [LF, LF, LF]) WriteOk)))
     TARGET_PATH = Some (TextFile (ascii ''abc'' @ [LF])) \<and>
   stdout (snd (main script_file (with_template (ascii ''abc'' @ [LF, LF, LF]) WriteOk))) =
     [''Wrote app/(dashboard)/contacts/contacts-import-modal.tsx (1 lines)''] \<and>
   fst (main script_file (with_template (ascii ''abc'' @ [LF, LF, LF]) OpenFails)) =
     Inl (OSError TARGET_PATH) \<and>
   nodes (snd (main script_file (with_template (ascii ''abc'' @ [LF, LF, LF]) OpenFails)))
     TARGET_PATH = None \<and>
   stdout (snd (main script_file (with_template (ascii ''abc'' @ [LF, LF, LF]) OpenFails))) = []"
proof -
  have "stdout (with_template (ascii ''abc'' @ [LF, LF, LF]) OpenFails) = []"
    by (simp add: with_template_def fresh_def)
  moreover have
    "nodes (with_template (ascii ''abc'' @ [LF, LF, LF]) WriteOk) (TEMPLATE_PATH script_file) =
     nodes (with_template (ascii ''abc'' @ [LF, LF, LF]) OpenFails) (TEMPLATE_PATH script_file)"
    by (simp add: with_template_def fresh_def)
  ultimately show ?thesis
    by (simp add: main_with_template main_with_template_unwritable abc_facts
        target_with_template)
qed

text \<open>
  C10, amended. Two successful runs on the same template leave the same content in the
  destination and print the same message, whatever else the two worlds hold.
\<close>

theorem successful_runs_agree:
  assumes "nodes w1 (TEMPLATE_PATH file) = nodes w2 (TEMPLATE_PATH file)"
    and "fst (main file w1) = Inr ()" and "fst (main file w2) = Inr ()"
  shows "nodes (snd (main file w1)) TARGET_PATH = nodes (snd (main file w2)) TARGET_PATH \<and>
         (\<exists>m. stdout (snd (main file w1)) = stdout w1 @ [m] \<and>
              stdout (snd (main file w2)) = stdout w2 @ [m])"
proof -
  from assms(2) obtain t1 where r1: "read_result (TEMPLATE_PATH file) w1 = Inr t1"
    by (auto simp: main_succeeds_iff)
  from assms(3) obtain t2 where r2: "read_result (TEMPLATE_PATH file) w2 = Inr t2"
    by (auto simp: main_succeeds_iff)
  from read_result_text [OF r1] read_result_text [OF r2] assms(1) have "t1 = t2"
    by auto
  with r2 have r2': "read_result (TEMPLATE_PATH file) w2 = Inr t1"
    by simp
  show ?thesis
    unfolding main_success [OF r1 assms(2)] main_success [OF r2' assms(3)] by simp
qed

theorem successful_runs_agree_witness:
  "nodes (with_template (ascii ''abc'' @ [LF, LF, LF]) WriteOk) (TEMPLATE_PATH script_file) =
   nodes (with_both (ascii ''abc'' @ [LF, LF, LF]) (TextFile (ascii ''unrelated'')) WriteOk)
     (TEMPLATE_PATH script_file) \<and>
   fst (main script_file (with_template (ascii ''abc'' @ [LF, LF, LF]) WriteOk)) = Inr () \<and>
   fst (main script_file
     (with_both (ascii ''abc'' @ [LF, LF, LF]) (TextFile (ascii ''unrelated'')) WriteOk)) = Inr () \<and>
   nodes (snd (main script_file
     (with_both (ascii ''abc'' @ [LF, LF, LF]) (TextFile (ascii ''unrelated'')) WriteOk)))
     TARGET_PATH = Some (TextFile (ascii ''abc'' @ [LF])) \<and>
   stdout (snd (main script_file
     (with_both (ascii ''abc'' @ [LF, LF, LF]) (TextFile (ascii ''unrelated'')) WriteOk))) =
     [''Wrote app/(dashboard)/contacts/contacts-import-modal.tsx (1 lines)'']"
proof -
  let ?w1 = "with_template (ascii ''abc'' @ [LF, LF, LF]) WriteOk"
  let ?w2 = "with_both (ascii ''abc'' @ [LF, LF, LF]) (TextFile (ascii ''unrelated'')) WriteOk"
  have t: "nodes ?w1 (TEMPLATE_PATH script_file) = nodes ?w2 (TEMPLATE_PATH script_file)"
    using template_file_not_target
    by (simp add: with_template_def with_both_def fresh_def TEMPLATE_PATH_script_file)
  have s1: "fst (main script_file ?w1) = Inr ()"
    by (simp add: main_with_template)
  have s2: "fst (main script_file ?w2) = Inr ()"
    by (simp add: main_with_both)
  have 1: "nodes (snd (main script_file ?w1)) TARGET_PATH = Some (TextFile (ascii ''abc'' @ [LF]))"
    and 2: "stdout (snd (main script_file ?w1)) =
      [''Wrote app/(dashboard)/contacts/contacts-import-modal.tsx (1 lines)'']"
    by (simp_all add: main_with_template abc_facts)
  have e: "stdout ?w1 = []" "stdout ?w2 = []"
    by (simp_all add: with_template_def with_both_def fresh_def)
  from successful_runs_agree [OF t s1 s2] 1 2 e t s1 s2 show ?thesis
    by auto
qed

end
